theory Spec2Isabelle
  imports Complex_Main "HOL-Library.Log_Nat" "HOL-Library.AList"
begin

section \<open>Python floats\<close>

text \<open>
  Monetary amounts in the tracker are Python floats (IEEE 754 binary64). A finite
  double is modelled by the rational number it denotes, and every float operation is
  the exact rational operation followed by rounding to the nearest double, ties to
  even (\<open>RN\<close>). Two things are left out: the exponent range is unbounded (overflow to
  infinity needs token counts beyond \<open>10^300\<close>, and the amounts computed from integer
  token counts are never subnormal), and \<open>-0.0\<close> is identified with \<open>0.0\<close> (Python's
  \<open>==\<close> does the same).
\<close>

type_synonym float64 = rat

definition round_half_even :: "rat \<Rightarrow> int" where
  "round_half_even x =
     (let f = \<lfloor>x\<rfloor>; r = x - of_int f
      in if r < 1 / 2 then f
         else if 1 / 2 < r then f + 1
         else if even f then f else f + 1)"

definition pow2 :: "int \<Rightarrow> rat" where
  "pow2 e = (if 0 \<le> e then 2 ^ nat e else 1 / 2 ^ nat (- e))"

text \<open>For \<open>0 < x\<close>, the exponent \<open>e\<close> with \<open>2^e \<le> x < 2^(e+1)\<close>.\<close>

definition floor_log2 :: "rat \<Rightarrow> int" where
  "floor_log2 x =
     (if 1 \<le> x then bitlen \<lfloor>x\<rfloor> - 1 else - bitlen (\<lceil>1 / x\<rceil> - 1))"

text \<open>Rounding to 53 significant bits: the spacing of doubles around \<open>x\<close> is
  \<open>2^(e - 52)\<close>.\<close>

definition RN :: "rat \<Rightarrow> float64" where
  "RN x =
     (if x = 0 then 0
      else let q = pow2 (floor_log2 \<bar>x\<bar> - 52)
           in of_int (round_half_even (x / q)) * q)"

text \<open>\<open>x + y\<close> and \<open>x * y\<close> on floats.\<close>

definition fadd :: "float64 \<Rightarrow> float64 \<Rightarrow> float64" where
  "fadd x y = RN (x + y)"

definition fmul :: "float64 \<Rightarrow> float64 \<Rightarrow> float64" where
  "fmul x y = RN (x * y)"

text \<open>\<open>a / b\<close> on two Python ints (true division, correctly rounded). The only divisor
  in the source is the constant \<open>1_000_000\<close>.\<close>

definition int_truediv :: "int \<Rightarrow> int \<Rightarrow> float64" where
  "int_truediv a b = RN (of_int a / of_int b)"

text \<open>\<open>round(x, n)\<close> on a float: the exact value of \<open>x\<close> is rounded half-even to \<open>n\<close>
  decimals, and the decimal result is read back as the nearest double.\<close>

definition round_ndigits :: "float64 \<Rightarrow> nat \<Rightarrow> float64" where
  "round_ndigits x n = RN (of_int (round_half_even (x * 10 ^ n)) / 10 ^ n)"


section \<open>Python dicts\<close>

text \<open>
  A dict is an association list in insertion order. \<open>map_of d k\<close> is the lookup,
  \<open>AList.update k v d\<close> is \<open>d[k] = v\<close>: it replaces the value of a present key in
  place and appends an absent key at the end.
\<close>

definition dict_get :: "('k \<times> 'v) list \<Rightarrow> 'k \<Rightarrow> 'v \<Rightarrow> 'v" where
  "dict_get d k dflt = (case map_of d k of Some v \<Rightarrow> v | None \<Rightarrow> dflt)"

section \<open>The pricing table and the cost calculator\<close>

text \<open>An entry of the table, keys \<open>input\<close> and \<open>output\<close> (USD per million tokens).\<close>

record pricing =
  pricing_input :: float64
  pricing_output :: float64

definition gpt_4o_mini :: pricing where
  "gpt_4o_mini = \<lparr>pricing_input = RN (150 / 1000), pricing_output = RN (600 / 1000)\<rparr>"

definition MODEL_PRICING :: "(string \<times> pricing) list" where
  "MODEL_PRICING =
     [(''gpt-4o-mini'', gpt_4o_mini),
      (''gpt-4o'', \<lparr>pricing_input = RN 5, pricing_output = RN 15\<rparr>),
      (''gpt-4'', \<lparr>pricing_input = RN 30, pricing_output = RN 60\<rparr>),
      (''claude-3-5-sonnet-20241022'', \<lparr>pricing_input = RN 3, pricing_output = RN 15\<rparr>),
      (''claude-3-opus-20240229'', \<lparr>pricing_input = RN 15, pricing_output = RN 75\<rparr>),
      (''claude-3-haiku-20240307'', \<lparr>pricing_input = RN (25 / 100), pricing_output = RN (125 / 100)\<rparr>)]"

text \<open>The dict returned by \<open>calculate_cost\<close>, keys \<open>input_cost\<close>, \<open>output_cost\<close>,
  \<open>total_cost\<close>.\<close>

record costs =
  costs_input_cost :: float64
  costs_output_cost :: float64
  costs_total_cost :: float64

definition calculate_cost :: "string \<Rightarrow> int \<Rightarrow> int \<Rightarrow> costs" where
  "calculate_cost model input_tokens output_tokens =
     (let pricing = dict_get MODEL_PRICING model gpt_4o_mini;
          input_cost = fmul (int_truediv input_tokens 1000000) (pricing_input pricing);
          output_cost = fmul (int_truediv output_tokens 1000000) (pricing_output pricing);
          total_cost = fadd input_cost output_cost
      in \<lparr>costs_input_cost = round_ndigits input_cost 6,
          costs_output_cost = round_ndigits output_cost 6,
          costs_total_cost = round_ndigits total_cost 6\<rparr>)"

section \<open>Call records\<close>

record LLMCallMetrics =
  timestamp :: string
  session_id :: string
  agent_name :: string
  model :: string
  provider :: string
  input_tokens :: int
  output_tokens :: int
  total_tokens :: int
  input_cost :: float64
  output_cost :: float64
  total_cost :: float64
  latency_ms :: float64

section \<open>Session rollups\<close>

text \<open>The per-agent and per-model dicts, keys \<open>calls\<close>, \<open>tokens\<close>, \<open>cost\<close>.\<close>

record stats =
  calls :: int
  tokens :: int
  cost :: float64

text \<open>A value of \<open>session_costs\<close>. The keys \<open>session_id\<close>, \<open>total_tokens\<close> and
  \<open>total_cost\<close> carry the prefix \<open>rollup_\<close>, since a call record has fields of the
  same names.\<close>

record rollup =
  rollup_session_id :: string
  start_time :: string
  last_update :: string
  total_calls :: int
  rollup_total_tokens :: int
  rollup_total_cost :: float64
  agents :: "(string \<times> stats) list"
  models :: "(string \<times> stats) list"

type_synonym sessions = "(string \<times> rollup) list"

section \<open>Files, the logger and the environment\<close>

text \<open>
  The text of the two files is not modelled. \<open>cost_log.csv\<close> is the list of its data
  rows (the header line is implicit), each row with the values that were written;
  \<open>session_costs.json\<close> is what \<open>json.load\<close> makes of it: the mapping that
  \<open>json.dump\<close> wrote, or a failure. \<open>None\<close> is an absent file. Creating the directory and
  writing the header are taken to succeed; a write can fail at the places where the
  source catches the exception, and whether it does is an input.
\<close>

datatype snapshot = Parsed sessions | Unparseable

record log_dir =
  csv_file :: "LLMCallMetrics list option"
  session_file :: "snapshot option"

datatype log_record = LogError string | LogInfo string | LogDebug string

text \<open>\<open>open(session_file, 'w')\<close> truncates the file: when the dump fails after that, the
  file is left with a text that does not parse.\<close>

datatype write_outcome = Written | Open_failed | Write_failed

record environment =
  now :: string
  csv_append_ok :: bool
  json_write :: write_outcome

record CostTracker =
  dir :: log_dir
  session_costs :: sessions
  logged :: "log_record list"

definition logger :: "log_record \<Rightarrow> CostTracker \<Rightarrow> CostTracker" where
  "logger r self = self\<lparr>logged := logged self @ [r]\<rparr>"

section \<open>The tracker\<close>

text \<open>\<open>if k not in d: d[k] = v\<close>\<close>

definition setdefault :: "'k \<Rightarrow> 'v \<Rightarrow> ('k \<times> 'v) list \<Rightarrow> ('k \<times> 'v) list" where
  "setdefault k v d = (if map_of d k = None then AList.update k v d else d)"

definition CostTracker_init :: "log_dir \<Rightarrow> CostTracker" where
  "CostTracker_init d =
     (let self = \<lparr>dir = d, session_costs = [], logged = []\<rparr>;
          self = (case session_file d of
                    None \<Rightarrow> self
                  | Some (Parsed s) \<Rightarrow> self\<lparr>session_costs := s\<rparr>
                  | Some Unparseable \<Rightarrow>
                      (logger (LogError ''Failed to load session costs'') self)
                        \<lparr>session_costs := []\<rparr>);
          self = (case csv_file d of
                    None \<Rightarrow> self\<lparr>dir := (dir self)\<lparr>csv_file := Some []\<rparr>\<rparr>
                  | Some rows \<Rightarrow> self)
      in logger (LogInfo ''CostTracker initialized'') self)"

text \<open>The methods \<open>_log_to_csv\<close>, \<open>_save_session_costs\<close> and \<open>_update_session\<close> are
  written without the leading underscore. A failed write is caught and logged, never
  raised.\<close>

definition log_to_csv :: "environment \<Rightarrow> LLMCallMetrics \<Rightarrow> CostTracker \<Rightarrow> CostTracker" where
  "log_to_csv env metrics self =
     (if csv_append_ok env
      then self\<lparr>dir := (dir self)\<lparr>csv_file :=
             Some ((case csv_file (dir self) of None \<Rightarrow> [] | Some rows \<Rightarrow> rows) @ [metrics])\<rparr>\<rparr>
      else logger (LogError ''Failed to log to CSV'') self)"

definition save_session_costs :: "environment \<Rightarrow> CostTracker \<Rightarrow> CostTracker" where
  "save_session_costs env self =
     (case json_write env of
        Written \<Rightarrow> self\<lparr>dir := (dir self)\<lparr>session_file := Some (Parsed (session_costs self))\<rparr>\<rparr>
      | Open_failed \<Rightarrow> logger (LogError ''Failed to save session costs'') self
      | Write_failed \<Rightarrow>
          logger (LogError ''Failed to save session costs'')
            (self\<lparr>dir := (dir self)\<lparr>session_file := Some Unparseable\<rparr>\<rparr>))"

text \<open>The body of \<open>_update_session\<close> after the session has been made present: the
  in-place updates of \<open>session\<close>.\<close>

definition update_rollup :: "LLMCallMetrics \<Rightarrow> rollup \<Rightarrow> rollup" where
  "update_rollup metrics session =
     (let session = session\<lparr>last_update := timestamp metrics\<rparr>;
          session = session\<lparr>total_calls := total_calls session + 1\<rparr>;
          session = session\<lparr>rollup_total_tokens :=
                      rollup_total_tokens session + total_tokens metrics\<rparr>;
          session = session\<lparr>rollup_total_cost :=
                      fadd (rollup_total_cost session) (total_cost metrics)\<rparr>;
          agent = agent_name metrics;
          session = session\<lparr>agents :=
                      setdefault agent \<lparr>calls = 0, tokens = 0, cost = 0\<rparr> (agents session)\<rparr>;
          session = session\<lparr>agents := AList.map_entry agent
                      (\<lambda>a. a\<lparr>calls := calls a + 1,
                              tokens := tokens a + total_tokens metrics,
                              cost := fadd (cost a) (total_cost metrics)\<rparr>) (agents session)\<rparr>;
          mdl = model metrics;
          session = session\<lparr>models :=
                      setdefault mdl \<lparr>calls = 0, tokens = 0, cost = 0\<rparr> (models session)\<rparr>;
          session = session\<lparr>models := AList.map_entry mdl
                      (\<lambda>a. a\<lparr>calls := calls a + 1,
                              tokens := tokens a + total_tokens metrics,
                              cost := fadd (cost a) (total_cost metrics)\<rparr>) (models session)\<rparr>
      in session)"

definition update_session :: "environment \<Rightarrow> LLMCallMetrics \<Rightarrow> CostTracker \<Rightarrow> CostTracker" where
  "update_session env metrics self =
     (let sid = session_id metrics;
          self = self\<lparr>session_costs := setdefault sid
                   \<lparr>rollup_session_id = sid,
                    start_time = timestamp metrics,
                    last_update = timestamp metrics,
                    total_calls = 0,
                    rollup_total_tokens = 0,
                    rollup_total_cost = 0,
                    agents = [],
                    models = []\<rparr> (session_costs self)\<rparr>;
          self = self\<lparr>session_costs :=
                   AList.map_entry sid (update_rollup metrics) (session_costs self)\<rparr>
      in save_session_costs env self)"

text \<open>The arguments of \<open>track_call\<close>.\<close>

record track_call_args =
  arg_session_id :: string
  arg_agent_name :: string
  arg_model :: string
  arg_provider :: string
  arg_input_tokens :: int
  arg_output_tokens :: int
  arg_latency_ms :: float64

definition track_call ::
  "environment \<Rightarrow> track_call_args \<Rightarrow> CostTracker \<Rightarrow> LLMCallMetrics \<times> CostTracker" where
  "track_call env a self =
     (let costs = calculate_cost (arg_model a) (arg_input_tokens a) (arg_output_tokens a);
          metrics = \<lparr>timestamp = now env,
                     session_id = arg_session_id a,
                     agent_name = arg_agent_name a,
                     model = arg_model a,
                     provider = arg_provider a,
                     input_tokens = arg_input_tokens a,
                     output_tokens = arg_output_tokens a,
                     total_tokens = arg_input_tokens a + arg_output_tokens a,
                     input_cost = costs_input_cost costs,
                     output_cost = costs_output_cost costs,
                     total_cost = costs_total_cost costs,
                     latency_ms = arg_latency_ms a\<rparr>;
          self = log_to_csv env metrics self;
          self = update_session env metrics self;
          self = logger (LogDebug ''Tracked LLM call'') self
      in (metrics, self))"

definition get_session_cost :: "CostTracker \<Rightarrow> string \<Rightarrow> rollup option" where
  "get_session_cost self sid = map_of (session_costs self) sid"

definition get_all_sessions :: "CostTracker \<Rightarrow> sessions" where
  "get_all_sessions self = session_costs self"


section \<open>The analysis tool\<close>


text \<open>The rows of the log as \<open>load_cost_log\<close> returns them: each numeric column is
  read back as the number that was written.\<close>

definition load_cost_log :: "log_dir \<Rightarrow> LLMCallMetrics list" where
  "load_cost_log d = (case csv_file d of None \<Rightarrow> [] | Some rows \<Rightarrow> rows)"




section \<open>The trace logger\<close>

text \<open>
  A Python \<open>str\<close> is a list with one element for each code point, so \<open>length\<close> is
  \<open>len\<close> and \<open>take 200\<close> is the slice \<open>[:200]\<close>. The payload of an event is a dict from
  strings to values; \<open>datetime.now().isoformat()\<close> and \<open>str(uuid.uuid4())\<close> are inputs.
\<close>

datatype TraceEventType =
  WORKFLOW_START | WORKFLOW_END | AGENT_START | AGENT_END
  | AGENT_RESPONSE | TOOL_START | TOOL_END | ERROR

fun event_value :: "TraceEventType \<Rightarrow> string" where
  "event_value WORKFLOW_START = ''workflow_start''"
| "event_value WORKFLOW_END = ''workflow_end''"
| "event_value AGENT_START = ''agent_start''"
| "event_value AGENT_END = ''agent_end''"
| "event_value AGENT_RESPONSE = ''agent_response''"
| "event_value TOOL_START = ''tool_start''"
| "event_value TOOL_END = ''tool_end''"
| "event_value ERROR = ''error''"

datatype pyval = PyNone | PyStr string | PyInt int | PyDict "(string \<times> pyval) list"

fun py_optional :: "string option \<Rightarrow> pyval" where
  "py_optional None = PyNone"
| "py_optional (Some s) = PyStr s"

text \<open>An event, keys \<open>type\<close>, \<open>timestamp\<close>, \<open>data\<close>.\<close>

record trace_event =
  event_type :: string
  event_timestamp :: string
  event_data :: "(string \<times> pyval) list"

record TraceLogger =
  traces :: "trace_event list"
  current_workflow :: "string option"
  current_trace_id :: "string option"

definition TraceLogger_init :: TraceLogger where
  "TraceLogger_init = \<lparr>traces = [], current_workflow = None, current_trace_id = None\<rparr>"

definition log_event ::
  "string \<Rightarrow> TraceEventType \<Rightarrow> (string \<times> pyval) list \<Rightarrow> TraceLogger \<Rightarrow> TraceLogger" where
  "log_event time etype data self =
     (let event = \<lparr>event_type = event_value etype, event_timestamp = time, event_data = data\<rparr>
      in self\<lparr>traces := traces self @ [event]\<rparr>)"

definition start_workflow ::
  "string \<Rightarrow> string \<Rightarrow> string \<Rightarrow> string \<Rightarrow> TraceLogger \<Rightarrow> string \<times> TraceLogger" where
  "start_workflow time uuid4 workflow_name user_input self =
     (let trace_id = uuid4;
          self = self\<lparr>current_trace_id := Some trace_id\<rparr>;
          self = self\<lparr>current_workflow := Some workflow_name\<rparr>;
          self = log_event time WORKFLOW_START
                   [(''trace_id'', PyStr trace_id),
                    (''workflow_name'', PyStr workflow_name),
                    (''user_input'', PyStr user_input)] self
      in (trace_id, self))"

text \<open>The dict returned by \<open>end_workflow\<close>.\<close>

record trace_summary =
  summary_trace_id :: "string option"
  summary_status :: string
  num_events :: nat

text \<open>\<open>if error:\<close> holds for a string that is neither \<open>None\<close> nor empty.\<close>

definition end_workflow ::
  "string \<Rightarrow> string \<Rightarrow> string option \<Rightarrow> TraceLogger \<Rightarrow> trace_summary \<times> TraceLogger" where
  "end_workflow time status error self =
     (let trace_data = [(''trace_id'', py_optional (current_trace_id self)),
                        (''workflow_name'', py_optional (current_workflow self)),
                        (''status'', PyStr status)];
          trace_data = (case error of
                          Some e \<Rightarrow> if e \<noteq> [] then AList.update ''error'' (PyStr e) trace_data
                                    else trace_data
                        | None \<Rightarrow> trace_data);
          self = log_event time WORKFLOW_END trace_data self;
          result = \<lparr>summary_trace_id = current_trace_id self,
                    summary_status = status,
                    num_events = length (traces self)\<rparr>;
          self = self\<lparr>current_workflow := None\<rparr>
      in (result, self))"

text \<open>\<open>metadata or {}\<close>, \<open>context or {}\<close>\<close>

fun or_empty :: "(string \<times> pyval) list option \<Rightarrow> (string \<times> pyval) list" where
  "or_empty None = []"
| "or_empty (Some d) = d"

definition log_agent_response ::
  "string \<Rightarrow> string \<Rightarrow> string \<Rightarrow> (string \<times> pyval) list option \<Rightarrow> TraceLogger \<Rightarrow> TraceLogger" where
  "log_agent_response time agent response metadata self =
     log_event time AGENT_RESPONSE
       [(''agent_name'', PyStr agent),
        (''response'', PyStr (if length response > 200 then take 200 response else response)),
        (''metadata'', PyDict (or_empty metadata))] self"

definition log_agent_activity :: "string \<Rightarrow> string \<Rightarrow> string \<Rightarrow> TraceLogger \<Rightarrow> TraceLogger" where
  "log_agent_activity time agent activity self =
     log_event time AGENT_START
       [(''agent_name'', PyStr agent), (''activity'', PyStr activity)] self"

definition log_tool_execution ::
  "string \<Rightarrow> string \<Rightarrow> (string \<times> pyval) list \<Rightarrow> TraceLogger \<Rightarrow> TraceLogger" where
  "log_tool_execution time tool_name args self =
     log_event time TOOL_START
       [(''tool_name'', PyStr tool_name), (''args'', PyDict args)] self"

text \<open>The exception argument is given by the name of its type.\<close>

definition log_error ::
  "string \<Rightarrow> string \<Rightarrow> string option \<Rightarrow> (string \<times> pyval) list option
   \<Rightarrow> TraceLogger \<Rightarrow> TraceLogger" where
  "log_error time error_message exception context self =
     (let error_data = [(''error'', PyStr error_message), (''context'', PyDict (or_empty context))];
          error_data = (case exception of
                          Some type_name \<Rightarrow> AList.update ''exception_type'' (PyStr type_name) error_data
                        | None \<Rightarrow> error_data)
      in log_event time ERROR error_data self)"

definition get_traces :: "TraceLogger \<Rightarrow> trace_event list" where
  "get_traces self = traces self"

definition clear_traces :: "TraceLogger \<Rightarrow> TraceLogger" where
  "clear_traces self =
     (let self = self\<lparr>traces := []\<rparr>;
          self = self\<lparr>current_workflow := None\<rparr>;
          self = self\<lparr>current_trace_id := None\<rparr>
      in self)"

text \<open>The methods of the logger that change it, as one operation type.\<close>

datatype trace_op =
  Log_event string TraceEventType "(string \<times> pyval) list"
  | Start_workflow string string string string
  | End_workflow string string "string option"
  | Log_agent_response string string string "(string \<times> pyval) list option"
  | Log_agent_activity string string string
  | Log_tool_execution string string "(string \<times> pyval) list"
  | Log_error string string "string option" "(string \<times> pyval) list option"
  | Clear_traces

fun apply_trace_op :: "trace_op \<Rightarrow> TraceLogger \<Rightarrow> TraceLogger" where
  "apply_trace_op (Log_event t ty d) self = log_event t ty d self"
| "apply_trace_op (Start_workflow t u w i) self = snd (start_workflow t u w i self)"
| "apply_trace_op (End_workflow t s e) self = snd (end_workflow t s e self)"
| "apply_trace_op (Log_agent_response t a r m) self = log_agent_response t a r m self"
| "apply_trace_op (Log_agent_activity t a c) self = log_agent_activity t a c self"
| "apply_trace_op (Log_tool_execution t n a) self = log_tool_execution t n a self"
| "apply_trace_op (Log_error t m e c) self = log_error t m e c self"
| "apply_trace_op Clear_traces self = clear_traces self"

section \<open>Example inputs\<close>

definition fresh_dir :: log_dir where
  "fresh_dir = \<lparr>csv_file = None, session_file = None\<rparr>"

definition env_ok :: environment where
  "env_ok = \<lparr>now = ''2025-01-01T00:00:00'', csv_append_ok = True, json_write = Written\<rparr>"

definition call :: "string \<Rightarrow> string \<Rightarrow> string \<Rightarrow> int \<Rightarrow> int \<Rightarrow> track_call_args" where
  "call sid agent mdl i out =
     \<lparr>arg_session_id = sid, arg_agent_name = agent, arg_model = mdl, arg_provider = ''openai'',
      arg_input_tokens = i, arg_output_tokens = out, arg_latency_ms = 0\<rparr>"


section \<open>Notions used in the statements and proofs\<close>

text \<open>
  \<open>touch k z f\<close> is the pattern the source uses on every dict: make the key present
  with the value \<open>z\<close>, then update its value in place with \<open>f\<close>. \<open>records_of sid ms\<close>
  are the call records of one session, in the order they were returned. \<open>breakdown\<close>,
  \<open>reconciled\<close> and \<open>all_reconciled\<close> state that the counts of a per-key dict, of a
  rollup, and of all rollups are those of the records; float sums are taken in the
  order of the records. \<open>rollup_stats\<close> reads a rollup with the key names of the
  analysis tool.
\<close>

definition touch :: "'k \<Rightarrow> 'v \<Rightarrow> ('v \<Rightarrow> 'v) \<Rightarrow> ('k \<times> 'v) list \<Rightarrow> ('k \<times> 'v) list" where
  "touch k z f d = AList.map_entry k f (setdefault k z d)"


definition add_call :: "LLMCallMetrics \<Rightarrow> stats \<Rightarrow> stats" where
  "add_call m a = a\<lparr>calls := calls a + 1, tokens := tokens a + total_tokens m,
                    cost := fadd (cost a) (total_cost m)\<rparr>"

definition zero_stats :: stats where
  "zero_stats = \<lparr>calls = 0, tokens = 0, cost = 0\<rparr>"




definition new_rollup :: "LLMCallMetrics \<Rightarrow> rollup" where
  "new_rollup m = \<lparr>rollup_session_id = session_id m, start_time = timestamp m,
      last_update = timestamp m, total_calls = 0, rollup_total_tokens = 0,
      rollup_total_cost = 0, agents = [], models = []\<rparr>"


section \<open>Properties\<close>

subsection \<open>The float model\<close>

lemma pow2_pos: "0 < pow2 e"
  by (simp add: pow2_def)

text \<open>
  The exponent function is right, and \<open>RN\<close> moves a number by at most half the
  spacing of the doubles around it.
\<close>

lemma floor_log2_bounds:
  assumes "0 < x"
  shows "pow2 (floor_log2 x) \<le> x \<and> x < pow2 (floor_log2 x + 1)"
proof (cases "1 \<le> x")
  case True
  define n where "n = \<lfloor>x\<rfloor>"
  from True have n: "0 < n" by (simp add: n_def)
  from bitlen_bounds[OF n] have b: "2 ^ nat (bitlen n - 1) \<le> n" "n < 2 ^ nat (bitlen n)"
    by simp_all
  from n have b1: "1 \<le> bitlen n"
    by (simp add: bitlen_alt_def)
  have lo: "(2::rat) ^ nat (bitlen n - 1) \<le> x"
  proof -
    have "(of_int (2 ^ nat (bitlen n - 1)) :: rat) \<le> of_int n"
      using b(1) by (simp only: of_int_le_iff)
    also have "\<dots> \<le> x" unfolding n_def by linarith
    finally show ?thesis by simp
  qed
  have hi: "x < (2::rat) ^ nat (bitlen n)"
  proof -
    have "x < of_int (n + 1)" unfolding n_def by linarith
    also have "\<dots> \<le> of_int (2 ^ nat (bitlen n))"
      using b(2) by (simp only: of_int_le_iff)
    finally show ?thesis by simp
  qed
  have e: "floor_log2 x = bitlen n - 1"
    using True by (simp add: floor_log2_def n_def)
  show ?thesis
    using lo hi b1 by (simp add: e pow2_def)
next
  case False
  define c where "c = \<lceil>1 / x\<rceil> - 1"
  from False assms have y: "1 < 1 / x" by simp
  then have c: "0 < c" by (simp add: c_def less_ceiling_iff)
  from bitlen_bounds[OF c] have b: "2 ^ nat (bitlen c - 1) \<le> c" "c < 2 ^ nat (bitlen c)"
    by simp_all
  from c have b1: "1 \<le> bitlen c"
    by (simp add: bitlen_alt_def)
  have up: "1 / x \<le> (2::rat) ^ nat (bitlen c)"
  proof -
    have "1 / x \<le> of_int (c + 1)" unfolding c_def by linarith
    also have "\<dots> \<le> of_int (2 ^ nat (bitlen c))"
      using b(2) by (simp only: of_int_le_iff)
    finally show ?thesis by simp
  qed
  have dn: "(2::rat) ^ nat (bitlen c - 1) < 1 / x"
  proof -
    have "(of_int (2 ^ nat (bitlen c - 1)) :: rat) \<le> of_int c"
      using b(1) by (simp only: of_int_le_iff)
    also have "\<dots> < 1 / x" unfolding c_def by linarith
    finally show ?thesis by simp
  qed
  have e: "floor_log2 x = - bitlen c"
    using False by (simp add: floor_log2_def c_def)
  have lo: "1 / 2 ^ nat (bitlen c) \<le> x"
    using up assms by (simp add: field_simps)
  have hi: "x < 1 / 2 ^ nat (bitlen c - 1)"
    using dn assms by (simp add: field_simps)
  have p1: "pow2 (- bitlen c) = 1 / 2 ^ nat (bitlen c)"
    using b1 by (simp add: pow2_def)
  have p2: "pow2 (1 - bitlen c) = 1 / 2 ^ nat (bitlen c - 1)"
    using b1 by (cases "bitlen c = 1") (simp_all add: pow2_def)
  show ?thesis
    using lo hi by (simp add: e p1 p2)
qed

lemma round_half_even_error: "\<bar>of_int (round_half_even x) - x\<bar> \<le> 1 / 2"
proof -
  have "of_int \<lfloor>x\<rfloor> \<le> x" "x < of_int \<lfloor>x\<rfloor> + 1"
    by linarith+
  then show ?thesis
    by (auto simp: round_half_even_def Let_def)
qed

lemma RN_error:
  assumes "x \<noteq> 0"
  shows "\<bar>RN x - x\<bar> * 2 \<le> pow2 (floor_log2 \<bar>x\<bar> - 52)"
proof -
  define q where "q = pow2 (floor_log2 \<bar>x\<bar> - 52)"
  have q: "0 < q" by (simp add: q_def pow2_pos)
  have "RN x - x = (of_int (round_half_even (x / q)) - x / q) * q"
    using assms q by (simp add: RN_def q_def Let_def field_simps)
  then have "\<bar>RN x - x\<bar> = \<bar>of_int (round_half_even (x / q)) - x / q\<bar> * q"
    using q by (simp add: abs_mult)
  also have "\<dots> \<le> 1 / 2 * q"
    using round_half_even_error[of "x / q"] q by (intro mult_right_mono) simp_all
  finally show ?thesis by (simp add: q_def)
qed

text \<open>
  \<open>0.1 + 0.2\<close> is \<open>0.30000000000000004\<close>, the double \<open>1351079888211149 / 2^52\<close>.
\<close>

lemma float_example:
  "fadd (RN (1 / 10)) (RN (2 / 10)) = 1351079888211149 / 4503599627370496"
  by code_simp

subsection \<open>Dict operations and the reconciliation invariant\<close>

lemma map_of_setdefault:
  "map_of (setdefault k z d) k' = (if k' = k \<and> map_of d k = None then Some z else map_of d k')"
  by (simp add: setdefault_def update_conv')

lemma map_of_touch:
  "map_of (touch k z f d) k' =
     (if k' = k then Some (f (case map_of d k of None \<Rightarrow> z | Some v \<Rightarrow> v)) else map_of d k')"
  by (simp add: touch_def map_of_map_entry map_of_setdefault split: option.splits)







lemma update_rollup_fields:
  "total_calls (update_rollup m s) = total_calls s + 1"
  "rollup_total_tokens (update_rollup m s) = rollup_total_tokens s + total_tokens m"
  "rollup_total_cost (update_rollup m s) = fadd (rollup_total_cost s) (total_cost m)"
  "agents (update_rollup m s) = touch (agent_name m) zero_stats (add_call m) (agents s)"
  "models (update_rollup m s) = touch (model m) zero_stats (add_call m) (models s)"
  "rollup_session_id (update_rollup m s) = rollup_session_id s"
  "start_time (update_rollup m s) = start_time s"
  "last_update (update_rollup m s) = timestamp m"
  by (simp_all add: update_rollup_def touch_def zero_stats_def add_call_def[abs_def] Let_def)

lemma session_costs_update_session:
  "session_costs (update_session env m self)
     = touch (session_id m) (new_rollup m) (update_rollup m) (session_costs self)"
  by (simp add: update_session_def save_session_costs_def logger_def touch_def new_rollup_def
           Let_def split: write_outcome.splits)




lemma track_call_record:
  "fst (track_call env a self) =
     \<lparr>timestamp = now env, session_id = arg_session_id a, agent_name = arg_agent_name a,
      model = arg_model a, provider = arg_provider a,
      input_tokens = arg_input_tokens a, output_tokens = arg_output_tokens a,
      total_tokens = arg_input_tokens a + arg_output_tokens a,
      input_cost = costs_input_cost (calculate_cost (arg_model a) (arg_input_tokens a) (arg_output_tokens a)),
      output_cost = costs_output_cost (calculate_cost (arg_model a) (arg_input_tokens a) (arg_output_tokens a)),
      total_cost = costs_total_cost (calculate_cost (arg_model a) (arg_input_tokens a) (arg_output_tokens a)),
      latency_ms = arg_latency_ms a\<rparr>"
  by (simp add: track_call_def Let_def)

lemma session_costs_log_to_csv: "session_costs (log_to_csv env m self) = session_costs self"
  by (simp add: log_to_csv_def logger_def)

lemma track_call_session_costs:
  "session_costs (snd (track_call env a self))
     = touch (arg_session_id a) (new_rollup (fst (track_call env a self)))
         (update_rollup (fst (track_call env a self))) (session_costs self)"
  by (simp add: track_call_def Let_def logger_def session_costs_update_session
        session_costs_log_to_csv)



subsection \<open>The analysis tool against the live rollups\<close>









lemma track_call_csv:
  "csv_append_ok env \<Longrightarrow>
     load_cost_log (dir (snd (track_call env a self)))
       = load_cost_log (dir self) @ [fst (track_call env a self)]"
  by (simp add: track_call_def Let_def logger_def update_session_def save_session_costs_def
        log_to_csv_def load_cost_log_def split: write_outcome.splits option.splits)



lemma init_fresh:
  "session_costs (CostTracker_init fresh_dir) = []"
  "load_cost_log (dir (CostTracker_init fresh_dir)) = []"
  by (simp_all add: CostTracker_init_def fresh_dir_def logger_def load_cost_log_def)



subsection \<open>Restart\<close>






subsection \<open>The trace logger\<close>

lemma end_workflow_frame:
  "end_workflow time status error self = (r, self') \<Longrightarrow>
     current_workflow self' = None
     \<and> current_trace_id self' = current_trace_id self
     \<and> (\<exists>ev. traces self' = traces self @ [ev] \<and> event_type ev = ''workflow_end''
            \<and> map_of (event_data ev) ''trace_id'' = Some (py_optional (current_trace_id self))
            \<and> map_of (event_data ev) ''workflow_name'' = Some (py_optional (current_workflow self)))
     \<and> summary_trace_id r = current_trace_id self
     \<and> num_events r = length (traces self) + 1"
  by (auto simp: end_workflow_def log_event_def Let_def split: option.splits)

lemma non_clear_keeps:
  "op \<noteq> Clear_traces \<Longrightarrow>
     (\<exists>evs. traces (apply_trace_op op s) = traces s @ evs)
     \<and> (current_trace_id s \<noteq> None \<longrightarrow> current_trace_id (apply_trace_op op s) \<noteq> None)"
  by (cases op)
     (auto simp: log_event_def start_workflow_def end_workflow_def log_agent_response_def
        log_agent_activity_def log_tool_execution_def log_error_def Let_def split: option.splits)

text \<open>
  Claim C10. \<open>end_workflow\<close> sets \<open>current_workflow\<close> to \<open>None\<close>, leaves
  \<open>current_trace_id\<close> as it is and appends one \<open>workflow_end\<close> event to the sequence. A
  second \<open>end_workflow\<close> right after it therefore reports the same trace id, and its
  event carries that trace id with the workflow name \<open>None\<close>. \<open>clear_traces\<close> empties
  the sequence and sets both fields to \<open>None\<close>; every other operation only extends the
  sequence and never turns a trace id that is set into \<open>None\<close>.
\<close>

theorem end_workflow_keeps_trace_id:
  assumes "end_workflow t1 st1 e1 self = (r1, self1)"
    and "end_workflow t2 st2 e2 self1 = (r2, self2)"
  shows "current_workflow self1 = None
       \<and> current_trace_id self1 = current_trace_id self
       \<and> (\<exists>ev. traces self1 = traces self @ [ev] \<and> event_type ev = ''workflow_end'')
       \<and> summary_trace_id r1 = current_trace_id self
       \<and> summary_trace_id r2 = current_trace_id self
       \<and> (\<exists>ev. traces self2 = traces self1 @ [ev] \<and> event_type ev = ''workflow_end''
              \<and> map_of (event_data ev) ''trace_id'' = Some (py_optional (current_trace_id self))
              \<and> map_of (event_data ev) ''workflow_name'' = Some PyNone)
       \<and> traces (clear_traces s) = []
       \<and> current_workflow (clear_traces s) = None
       \<and> current_trace_id (clear_traces s) = None
       \<and> (\<forall>op. op \<noteq> Clear_traces \<longrightarrow>
              (\<exists>evs. traces (apply_trace_op op s) = traces s @ evs)
              \<and> (current_trace_id s \<noteq> None \<longrightarrow> current_trace_id (apply_trace_op op s) \<noteq> None))"
proof -
  note f1 = end_workflow_frame[OF assms(1)]
  note f2 = end_workflow_frame[OF assms(2)]
  have a: "current_workflow self1 = None" "current_trace_id self1 = current_trace_id self"
    "summary_trace_id r1 = current_trace_id self"
    using f1 by simp_all
  have b: "\<exists>ev. traces self1 = traces self @ [ev] \<and> event_type ev = ''workflow_end''"
    using f1 by blast
  have c: "summary_trace_id r2 = current_trace_id self"
    using f2 a by simp
  have d: "\<exists>ev. traces self2 = traces self1 @ [ev] \<and> event_type ev = ''workflow_end''
              \<and> map_of (event_data ev) ''trace_id'' = Some (py_optional (current_trace_id self))
              \<and> map_of (event_data ev) ''workflow_name'' = Some PyNone"
    using f2 a by simp
  have e: "traces (clear_traces s) = []" "current_workflow (clear_traces s) = None"
    "current_trace_id (clear_traces s) = None"
    by (simp_all add: clear_traces_def)
  show ?thesis
    using a b c d e non_clear_keeps[of _ s] by blast
qed

text \<open>
  After \<open>start_workflow\<close> with the trace id \<open>trace-1\<close> and one \<open>end_workflow\<close>, a
  second \<open>end_workflow\<close> still reports \<open>trace-1\<close>.
\<close>

theorem end_workflow_keeps_trace_id_witness:
  "summary_trace_id
     (fst (end_workflow ''t2'' ''completed'' None
        (snd (end_workflow ''t1'' ''completed'' None
           (snd (start_workflow ''t0'' ''trace-1'' ''recon'' ''scan'' TraceLogger_init))))))
     = Some ''trace-1''"
  using end_workflow_keeps_trace_id
          [OF surjective_pairing surjective_pairing,
           of "''t1''" "''completed''" None
              "snd (start_workflow ''t0'' ''trace-1'' ''recon'' ''scan'' TraceLogger_init)"
              "''t2''" "''completed''" None TraceLogger_init]
  by (simp add: start_workflow_def log_event_def Let_def TraceLogger_init_def)

subsection \<open>The constructor on a snapshot that does not parse\<close>

text \<open>
  Claim C7. When the snapshot file is there and does not parse, the constructor runs
  to its end: the failure is logged as an error, the session mapping is empty, the log
  file is initialised, and the last thing logged is the info line of a completed
  construction. The snapshot file is left as it was.
\<close>

theorem init_survives_unparseable_snapshot:
  assumes "session_file d = Some Unparseable"
  shows "get_all_sessions (CostTracker_init d) = []
       \<and> logged (CostTracker_init d)
           = [LogError ''Failed to load session costs'', LogInfo ''CostTracker initialized'']
       \<and> csv_file (dir (CostTracker_init d)) \<noteq> None
       \<and> session_file (dir (CostTracker_init d)) = Some Unparseable"
  using assms
  by (simp add: CostTracker_init_def get_all_sessions_def logger_def Let_def split: option.splits)

text \<open>
  A directory that holds only a snapshot that does not parse.
\<close>

theorem init_survives_unparseable_snapshot_witness:
  "get_all_sessions (CostTracker_init \<lparr>csv_file = None, session_file = Some Unparseable\<rparr>) = []
   \<and> logged (CostTracker_init \<lparr>csv_file = None, session_file = Some Unparseable\<rparr>)
       = [LogError ''Failed to load session costs'', LogInfo ''CostTracker initialized'']"
  using init_survives_unparseable_snapshot
          [of "\<lparr>csv_file = None, session_file = Some Unparseable\<rparr>"]
  by simp

subsection \<open>A failed append\<close>







subsection \<open>Token counts are not checked\<close>

text \<open>
  Claim C2, as amended. \<open>track_call\<close> does not check its token counts. With a negative
  count it returns a call record that carries the counts as given, their sum, and the
  cost that \<open>calculate_cost\<close> computes from them; the record is appended to the log
  when the write succeeds, it is folded into the rollup of its session, and the
  session mapping is changed.
\<close>

theorem negative_tokens_are_tracked:
  assumes "arg_input_tokens a < 0 \<or> arg_output_tokens a < 0"
    and "track_call env a self = (m, self')"
  shows "input_tokens m = arg_input_tokens a
       \<and> output_tokens m = arg_output_tokens a
       \<and> total_tokens m = arg_input_tokens a + arg_output_tokens a
       \<and> total_cost m
           = costs_total_cost (calculate_cost (arg_model a) (arg_input_tokens a) (arg_output_tokens a))
       \<and> (csv_append_ok env \<longrightarrow> load_cost_log (dir self') = load_cost_log (dir self) @ [m])
       \<and> map_of (session_costs self') (arg_session_id a)
           = Some (update_rollup m
               (case map_of (session_costs self) (arg_session_id a) of
                  None \<Rightarrow> new_rollup m | Some s \<Rightarrow> s))
       \<and> session_costs self' \<noteq> session_costs self"
proof -
  from assms(2) have m: "m = fst (track_call env a self)" and s: "self' = snd (track_call env a self)"
    by simp_all
  have rec: "input_tokens m = arg_input_tokens a" "output_tokens m = arg_output_tokens a"
    "total_tokens m = arg_input_tokens a + arg_output_tokens a"
    "total_cost m
       = costs_total_cost (calculate_cost (arg_model a) (arg_input_tokens a) (arg_output_tokens a))"
    by (simp_all add: m track_call_record)
  have csv: "csv_append_ok env \<longrightarrow> load_cost_log (dir self') = load_cost_log (dir self) @ [m]"
    using track_call_csv[of env a self] by (simp add: m s)
  have look: "map_of (session_costs self') (arg_session_id a)
           = Some (update_rollup m
               (case map_of (session_costs self) (arg_session_id a) of
                  None \<Rightarrow> new_rollup m | Some s \<Rightarrow> s))"
    by (auto simp: s m track_call_session_costs map_of_touch split: option.splits)
  have "map_of (session_costs self') (arg_session_id a)
          \<noteq> map_of (session_costs self) (arg_session_id a)"
    unfolding look
    by (cases "map_of (session_costs self) (arg_session_id a)")
       (auto simp: update_rollup_fields dest: arg_cong[where f = total_calls])
  then have "session_costs self' \<noteq> session_costs self"
    by auto
  with rec csv look show ?thesis by blast
qed

text \<open>
  A call with \<open>-1000000\<close> input tokens on a fresh tracker.
\<close>

theorem negative_tokens_are_tracked_witness:
  "input_tokens (fst (track_call env_ok (call ''s1'' ''Planner'' ''gpt-4o-mini'' (- 1000000) 0)
       (CostTracker_init fresh_dir))) = - 1000000
   \<and> session_costs (snd (track_call env_ok (call ''s1'' ''Planner'' ''gpt-4o-mini'' (- 1000000) 0)
       (CostTracker_init fresh_dir))) \<noteq> session_costs (CostTracker_init fresh_dir)"
proof -
  have 1: "arg_input_tokens (call ''s1'' ''Planner'' ''gpt-4o-mini'' (- 1000000) 0) < 0
           \<or> arg_output_tokens (call ''s1'' ''Planner'' ''gpt-4o-mini'' (- 1000000) 0) < 0"
    by (simp add: call_def)
  show ?thesis
    using negative_tokens_are_tracked[OF 1 surjective_pairing] by (simp add: call_def)
qed

subsection \<open>Rollups and call records\<close>





subsection \<open>Float sums in two groupings\<close>










subsection \<open>The cost calculator\<close>


lemma cost_mini_minus_million:
  "calculate_cost ''gpt-4o-mini'' (- 1000000) 0
     = \<lparr>costs_input_cost = - (5404319552844595 / 36028797018963968),
        costs_output_cost = 0,
        costs_total_cost = - (5404319552844595 / 36028797018963968)\<rparr>"
  by code_simp





text \<open>
  Claim C2 as stated fails: \<open>calculate_cost("gpt-4o-mini", -1000000, 0)\<close> returns the
  total cost \<open>-0.15\<close>, and \<open>track_call\<close> with these counts on a fresh tracker returns
  a record with a negative cost, appends it to the log and counts it in the rollup of
  its session.
\<close>

theorem negative_tokens_counterexample:
  "costs_total_cost (calculate_cost ''gpt-4o-mini'' (- 1000000) 0)
     = - (5404319552844595 / 36028797018963968)
   \<and> total_cost (fst (track_call env_ok (call ''s1'' ''Planner'' ''gpt-4o-mini'' (- 1000000) 0)
         (CostTracker_init fresh_dir))) < 0
   \<and> load_cost_log (dir (snd (track_call env_ok
         (call ''s1'' ''Planner'' ''gpt-4o-mini'' (- 1000000) 0) (CostTracker_init fresh_dir))))
       = [fst (track_call env_ok (call ''s1'' ''Planner'' ''gpt-4o-mini'' (- 1000000) 0)
            (CostTracker_init fresh_dir))]
   \<and> map_option total_calls (map_of (session_costs (snd (track_call env_ok
         (call ''s1'' ''Planner'' ''gpt-4o-mini'' (- 1000000) 0) (CostTracker_init fresh_dir)))) ''s1'')
       = Some 1"
proof -
  have 1: "costs_total_cost (calculate_cost ''gpt-4o-mini'' (- 1000000) 0)
     = - (5404319552844595 / 36028797018963968)"
    by (simp add: cost_mini_minus_million)
  have 2: "total_cost (fst (track_call env_ok (call ''s1'' ''Planner'' ''gpt-4o-mini'' (- 1000000) 0)
         (CostTracker_init fresh_dir))) < 0"
    by (simp add: track_call_record call_def cost_mini_minus_million)
  have ok: "csv_append_ok env_ok"
    by (simp add: env_ok_def)
  have 3: "load_cost_log (dir (snd (track_call env_ok
         (call ''s1'' ''Planner'' ''gpt-4o-mini'' (- 1000000) 0) (CostTracker_init fresh_dir))))
       = [fst (track_call env_ok (call ''s1'' ''Planner'' ''gpt-4o-mini'' (- 1000000) 0)
            (CostTracker_init fresh_dir))]"
    by (simp add: track_call_csv[OF ok] init_fresh)
  have 4: "map_option total_calls (map_of (session_costs (snd (track_call env_ok
         (call ''s1'' ''Planner'' ''gpt-4o-mini'' (- 1000000) 0) (CostTracker_init fresh_dir)))) ''s1'')
       = Some 1"
    by (simp add: track_call_session_costs map_of_touch init_fresh update_rollup_fields
          new_rollup_def call_def)
  from 1 2 3 4 show ?thesis by (intro conjI)
qed

subsection \<open>Truncated responses\<close>

text \<open>
  Claim C9. \<open>log_agent_response\<close> appends one \<open>agent_response\<close> event. The response
  stored in it is the response itself when its length is at most 200, and its first
  200 elements otherwise; the stored response is never longer than 200.
\<close>

theorem log_agent_response_truncates:
  "\<exists>ev. traces (log_agent_response time agent response metadata self) = traces self @ [ev]
      \<and> event_type ev = ''agent_response''
      \<and> map_of (event_data ev) ''response''
           = Some (PyStr (if length response \<le> 200 then response else take 200 response))
      \<and> length (if length response \<le> 200 then response else take 200 response) \<le> 200"
  by (simp add: log_agent_response_def log_event_def)

text \<open>
  A response of 250 characters is stored as its first 200.
\<close>

theorem log_agent_response_truncates_witness:
  "\<exists>ev. traces (log_agent_response ''t'' ''Planner'' (replicate 250 CHR ''x'') None TraceLogger_init) = [ev]
      \<and> map_of (event_data ev) ''response'' = Some (PyStr (replicate 200 CHR ''x''))"
  using log_agent_response_truncates
          [of "''t''" "''Planner''" "replicate 250 CHR ''x''" None TraceLogger_init]
  by (auto simp: TraceLogger_init_def)

end
